theory Spec2Isabelle
  imports Complex_Main
begin

section \<open>Text formatting used by the numbering and the receipt\<close>

text \<open>
  Python's \<^verbatim>\<open>str(n)\<close> for a non-negative integer: its decimal digits, most significant
  first.
\<close>

definition digit_char :: "nat \<Rightarrow> char" where
  "digit_char d = ''0123456789'' ! (d mod 10)"

fun digits :: "nat \<Rightarrow> string" where
  "digits n = (if n < 10 then [digit_char n] else digits (n div 10) @ [digit_char (n mod 10)])"

declare digits.simps [simp del]

text \<open>\<^verbatim>\<open>str(i)\<close> for any integer.\<close>

definition str_int :: "int \<Rightarrow> string" where
  "str_int i = (if i < 0 then CHR ''-'' # digits (nat (- i)) else digits (nat i))"

text \<open>
  Alignment in a format specification: \<^verbatim>\<open>{s:>w}\<close> pads on the left, \<^verbatim>\<open>{s:<w}\<close> on the
  right; a text longer than the width is left as it is.
\<close>

definition rjust :: "nat \<Rightarrow> char \<Rightarrow> string \<Rightarrow> string" where
  "rjust w c s = replicate (w - length s) c @ s"

definition ljust :: "nat \<Rightarrow> char \<Rightarrow> string \<Rightarrow> string" where
  "ljust w c s = s @ replicate (w - length s) c"

text \<open>\<^verbatim>\<open>f"{n:0wd}"\<close> for a non-negative \<open>n\<close>: zero-padded to at least \<open>w\<close> digits.\<close>

definition fmt_0d :: "nat \<Rightarrow> nat \<Rightarrow> string" where
  "fmt_0d w n = rjust w CHR ''0'' (digits n)"

text \<open>
  A reading of the clock (\<^verbatim>\<open>datetime.now()\<close>, \<^verbatim>\<open>datetime.utcnow()\<close>) and the renderings
  the program takes of it. The year is rendered with four digits, as it is for every year
  from 1000 on.
\<close>

record datetime =
  year :: nat
  month :: nat
  day :: nat
  hour :: nat
  minute :: nat
  second :: nat
  microsecond :: nat

definition strftime_Ymd :: "datetime \<Rightarrow> string" where
  "strftime_Ymd t = fmt_0d 4 (year t) @ fmt_0d 2 (month t) @ fmt_0d 2 (day t)"

definition strftime_Y_m_d :: "datetime \<Rightarrow> string" where
  "strftime_Y_m_d t = fmt_0d 4 (year t) @ ''-'' @ fmt_0d 2 (month t) @ ''-'' @ fmt_0d 2 (day t)"

definition strftime_HMS :: "datetime \<Rightarrow> string" where
  "strftime_HMS t = fmt_0d 2 (hour t) @ '':'' @ fmt_0d 2 (minute t) @ '':'' @ fmt_0d 2 (second t)"

definition strftime_Y_m_d_HMS :: "datetime \<Rightarrow> string" where
  "strftime_Y_m_d_HMS t = strftime_Y_m_d t @ '' '' @ strftime_HMS t"

definition isoformat :: "datetime \<Rightarrow> string" where
  "isoformat t = strftime_Y_m_d t @ ''T'' @ strftime_HMS t @
     (if microsecond t = 0 then [] else ''.'' @ fmt_0d 6 (microsecond t))"

section \<open>The database (database/db.py)\<close>

subsection \<open>Tables with an AUTOINCREMENT key\<close>

text \<open>
  A table declared \<^verbatim>\<open>id INTEGER PRIMARY KEY AUTOINCREMENT\<close>: its rows in insertion order,
  each with its id, and the largest id ever handed out (SQLite's \<^verbatim>\<open>sqlite_sequence\<close>).
\<close>

record 'r table =
  rows :: "(nat \<times> 'r) list"
  autoinc :: nat

text \<open>\<^verbatim>\<open>SELECT IFNULL(MAX(id), 0)\<close>.\<close>

definition max_id :: "'r table \<Rightarrow> nat" where
  "max_id t = foldr max (map fst (rows t)) 0"

text \<open>An INSERT without an id: the new id is one more than every id the table ever had.
  The result is the new table and \<^verbatim>\<open>cursor.lastrowid\<close>.\<close>

definition insert_row :: "'r \<Rightarrow> 'r table \<Rightarrow> 'r table \<times> nat" where
  "insert_row r t =
     (let i = max (autoinc t) (max_id t) + 1
      in (t\<lparr>rows := rows t @ [(i, r)], autoinc := i\<rparr>, i))"

text \<open>\<^verbatim>\<open>SELECT ... WHERE id=?\<close> followed by \<^verbatim>\<open>fetchone()\<close>.\<close>

definition fetch_by_id :: "'r table \<Rightarrow> nat \<Rightarrow> 'r option" where
  "fetch_by_id t i = map_of (rows t) i"

subsection \<open>Rows\<close>

text \<open>
  The columns of the schema. Amounts (the REAL columns, Python floats) are values of a
  type \<open>'m\<close> of which each function asks only the operations it uses, so that no result
  depends on laws that floating-point arithmetic does not have.
\<close>

record 'm product =
  p_barcode :: "string option"
  p_name :: string
  p_category :: "string option"
  purchase_price :: 'm
  sale_price :: 'm
  stock_qty :: int
  tax_percent :: 'm
  reorder_level :: int
  p_created_at :: string
  p_updated_at :: string

record 'm sale =
  invoice_no :: "string option"
  s_date_time :: string
  s_total_amount :: 'm
  payment_method :: string
  paid_amount :: 'm
  change_amount :: 'm
  cashier_id :: "nat option"

text \<open>A row of \<^verbatim>\<open>sale_items\<close> or of \<^verbatim>\<open>purchase_items\<close>; \<open>header_id\<close> is the column
  \<^verbatim>\<open>sale_id\<close>, respectively \<^verbatim>\<open>purchase_id\<close>.\<close>

record 'm item_row =
  header_id :: nat
  r_product_id :: "nat option"
  r_barcode :: string
  r_description :: string
  r_qty :: int
  r_unit_price :: 'm
  r_line_total :: 'm

record 'm purchase =
  purchase_no :: string
  pu_date_time :: string
  supplier_id :: "nat option"
  supplier_name :: string
  pu_total_amount :: 'm

record 'm tables =
  products :: "nat \<rightharpoonup> 'm product"
  sales :: "'m sale table"
  sale_items :: "'m item_row table"
  purchases :: "'m purchase table"
  purchase_items :: "'m item_row table"
  settings :: "string \<rightharpoonup> string"

subsection \<open>The connection\<close>

text \<open>
  One sqlite3 connection: what is committed to the file, and what the connection sees,
  which includes the changes of the open transaction. A statement that raises changes
  neither.
\<close>

record 'm conn =
  committed :: "'m tables"
  working :: "'m tables"

definition commit :: "'m conn \<Rightarrow> 'm conn" where
  "commit c = c\<lparr>committed := working c\<rparr>"

definition rollback :: "'m conn \<Rightarrow> 'm conn" where
  "rollback c = c\<lparr>working := committed c\<rparr>"

text \<open>No transaction is open: the connection sees what is committed.\<close>

definition clean :: "'m conn \<Rightarrow> bool" where
  "clean c = (committed c = working c)"

text \<open>
  The errors a statement can raise: a violated UNIQUE constraint, and a failure of the
  storage itself, which the model takes from its caller as a flag on the statement.
\<close>

datatype sql_error = IntegrityError | OperationalError

subsection \<open>Settings\<close>

text \<open>A Python value handed to the settings: a \<^verbatim>\<open>str\<close>, or any other object, of which
  only its \<^verbatim>\<open>str()\<close> matters (the parameter \<open>str_of\<close>).\<close>

datatype 'v pyval = PStr string | PObj 'v

fun py_str :: "('v \<Rightarrow> string) \<Rightarrow> 'v pyval \<Rightarrow> string" where
  "py_str str_of (PStr s) = s"
| "py_str str_of (PObj v) = str_of v"

definition get_setting :: "'m conn \<Rightarrow> string \<Rightarrow> 'v pyval \<Rightarrow> 'v pyval" where
  "get_setting c key dflt =
     (case settings (working c) key of Some v \<Rightarrow> PStr v | None \<Rightarrow> dflt)"

definition set_setting ::
  "bool \<Rightarrow> ('v \<Rightarrow> string) \<Rightarrow> 'm conn \<Rightarrow> string \<Rightarrow> 'v pyval \<Rightarrow> sql_error + 'm conn" where
  "set_setting fails str_of c key v =
     (if fails then Inl OperationalError
      else Inr (commit (c\<lparr>working := (working c)
                  \<lparr>settings := (settings (working c))(key \<mapsto> py_str str_of v)\<rparr>\<rparr>)))"

text \<open>config/settings.py: \<^verbatim>\<open>AppSettings.get\<close> and \<^verbatim>\<open>AppSettings.set\<close>.\<close>

definition AppSettings_get :: "'m conn \<Rightarrow> string \<Rightarrow> 'v pyval \<Rightarrow> 'v pyval" where
  "AppSettings_get c key dflt = get_setting c key dflt"

definition AppSettings_set ::
  "bool \<Rightarrow> ('v \<Rightarrow> string) \<Rightarrow> 'm conn \<Rightarrow> string \<Rightarrow> 'v pyval \<Rightarrow> sql_error + 'm conn" where
  "AppSettings_set fails str_of c key v =
     set_setting fails str_of c key (PStr (py_str str_of v))"

subsection \<open>Statements\<close>

text \<open>
  \<^verbatim>\<open>cursor.execute\<close> of each writing statement of the program, on what the connection sees.
  The flag \<open>fails\<close> is the storage failing on this statement. The UNIQUE columns are
  \<^verbatim>\<open>sales.invoice_no\<close> and \<^verbatim>\<open>purchases.purchase_no\<close>; a NULL never violates UNIQUE.
  Reading statements are taken not to fail.
\<close>

definition exec_insert_sale :: "bool \<Rightarrow> 'm sale \<Rightarrow> 'm conn \<Rightarrow> sql_error + ('m conn \<times> nat)" where
  "exec_insert_sale fails r c =
     (if fails then Inl OperationalError
      else if invoice_no r \<noteq> None
              \<and> invoice_no r \<in> set (map (\<lambda>x. invoice_no (snd x)) (rows (sales (working c))))
        then Inl IntegrityError
      else (case insert_row r (sales (working c)) of
              (t, i) \<Rightarrow> Inr (c\<lparr>working := (working c)\<lparr>sales := t\<rparr>\<rparr>, i)))"

definition exec_insert_sale_item ::
  "bool \<Rightarrow> 'm item_row \<Rightarrow> 'm conn \<Rightarrow> sql_error + ('m conn \<times> nat)" where
  "exec_insert_sale_item fails r c =
     (if fails then Inl OperationalError
      else (case insert_row r (sale_items (working c)) of
              (t, i) \<Rightarrow> Inr (c\<lparr>working := (working c)\<lparr>sale_items := t\<rparr>\<rparr>, i)))"

definition exec_insert_purchase ::
  "bool \<Rightarrow> 'm purchase \<Rightarrow> 'm conn \<Rightarrow> sql_error + ('m conn \<times> nat)" where
  "exec_insert_purchase fails r c =
     (if fails then Inl OperationalError
      else if purchase_no r \<in> set (map (\<lambda>x. purchase_no (snd x)) (rows (purchases (working c))))
        then Inl IntegrityError
      else (case insert_row r (purchases (working c)) of
              (t, i) \<Rightarrow> Inr (c\<lparr>working := (working c)\<lparr>purchases := t\<rparr>\<rparr>, i)))"

definition exec_insert_purchase_item ::
  "bool \<Rightarrow> 'm item_row \<Rightarrow> 'm conn \<Rightarrow> sql_error + ('m conn \<times> nat)" where
  "exec_insert_purchase_item fails r c =
     (if fails then Inl OperationalError
      else (case insert_row r (purchase_items (working c)) of
              (t, i) \<Rightarrow> Inr (c\<lparr>working := (working c)\<lparr>purchase_items := t\<rparr>\<rparr>, i)))"

text \<open>\<^verbatim>\<open>UPDATE products SET ... WHERE id=?\<close>: the row with that id, if there is one, is
  changed by \<open>f\<close>; a NULL id matches no row.\<close>

definition update_where_id ::
  "('m product \<Rightarrow> 'm product) \<Rightarrow> nat option \<Rightarrow> (nat \<rightharpoonup> 'm product) \<Rightarrow> (nat \<rightharpoonup> 'm product)" where
  "update_where_id f pid m =
     (case pid of None \<Rightarrow> m
      | Some i \<Rightarrow> (case m i of None \<Rightarrow> m | Some p \<Rightarrow> m(i \<mapsto> f p)))"

definition exec_update_product ::
  "bool \<Rightarrow> ('m product \<Rightarrow> 'm product) \<Rightarrow> nat option \<Rightarrow> 'm conn \<Rightarrow> sql_error + 'm conn" where
  "exec_update_product fails f pid c =
     (if fails then Inl OperationalError
      else Inr (c\<lparr>working := (working c)
                  \<lparr>products := update_where_id f pid (products (working c))\<rparr>\<rparr>))"

text \<open>\<^verbatim>\<open>UPDATE sales SET invoice_no=? WHERE id=?\<close>.\<close>

definition exec_update_invoice :: "bool \<Rightarrow> string \<Rightarrow> nat \<Rightarrow> 'm conn \<Rightarrow> sql_error + 'm conn" where
  "exec_update_invoice fails ino sid c =
     (let rs = rows (sales (working c)) in
      if fails then Inl OperationalError
      else if sid \<in> set (map fst rs)
              \<and> Some ino \<in> set (map (\<lambda>x. invoice_no (snd x)) (filter (\<lambda>x. fst x \<noteq> sid) rs))
        then Inl IntegrityError
      else Inr (c\<lparr>working := (working c)\<lparr>sales := (sales (working c))
             \<lparr>rows := map (\<lambda>x. if fst x = sid then (fst x, (snd x)\<lparr>invoice_no := Some ino\<rparr>) else x) rs\<rparr>\<rparr>\<rparr>))"

subsection \<open>Methods of the class DB\<close>

definition DB_create_sale ::
  "bool \<Rightarrow> datetime \<Rightarrow> 'm conn \<Rightarrow> string option \<Rightarrow> 'm \<Rightarrow> string \<Rightarrow> 'm \<Rightarrow> 'm \<Rightarrow> nat option
     \<Rightarrow> sql_error + ('m conn \<times> nat)" where
  "DB_create_sale fails now c ino tot pm paid change cashier =
     (case exec_insert_sale fails
             \<lparr>invoice_no = ino, s_date_time = isoformat now, s_total_amount = tot,
              payment_method = pm, paid_amount = paid, change_amount = change,
              cashier_id = cashier\<rparr> c of
        Inl e \<Rightarrow> Inl e
      | Inr (c', i) \<Rightarrow> Inr (commit c', i))"

definition add_sale_item ::
  "bool \<Rightarrow> 'm conn \<Rightarrow> nat \<Rightarrow> nat option \<Rightarrow> string \<Rightarrow> string \<Rightarrow> int \<Rightarrow> 'm \<Rightarrow> 'm
     \<Rightarrow> sql_error + 'm conn" where
  "add_sale_item fails c sale_id pid bc desc q price tot =
     (case exec_insert_sale_item fails
             \<lparr>header_id = sale_id, r_product_id = pid, r_barcode = bc, r_description = desc,
              r_qty = q, r_unit_price = price, r_line_total = tot\<rparr> c of
        Inl e \<Rightarrow> Inl e
      | Inr (c', i) \<Rightarrow> Inr (commit c'))"

definition decrement_stock :: "bool \<Rightarrow> 'm conn \<Rightarrow> nat option \<Rightarrow> int \<Rightarrow> sql_error + 'm conn" where
  "decrement_stock fails c pid q =
     (if pid = None then Inr c
      else (case exec_update_product fails (\<lambda>p. p\<lparr>stock_qty := stock_qty p - q\<rparr>) pid c of
              Inl e \<Rightarrow> Inl e
            | Inr c' \<Rightarrow> Inr (commit c')))"

definition increment_stock ::
  "bool \<Rightarrow> 'm conn \<Rightarrow> nat option \<Rightarrow> int \<Rightarrow> 'm option \<Rightarrow> sql_error + 'm conn" where
  "increment_stock fails c pid q new_cost =
     (case exec_update_product fails
             (case new_cost of
                Some cost \<Rightarrow> (\<lambda>p. p\<lparr>stock_qty := stock_qty p + q, purchase_price := cost\<rparr>)
              | None \<Rightarrow> (\<lambda>p. p\<lparr>stock_qty := stock_qty p + q\<rparr>)) pid c of
        Inl e \<Rightarrow> Inl e
      | Inr c' \<Rightarrow> Inr (commit c'))"

section \<open>Line items and Python's arithmetic on them\<close>

text \<open>
  A line item as the cart of the POS window, the item lists of database/models.py and
  the rows read from the purchase dialog's table hold it: the dict with the keys
  \<^verbatim>\<open>product_id\<close>, \<^verbatim>\<open>barcode\<close>, \<^verbatim>\<open>name\<close>, \<^verbatim>\<open>unit_price\<close>, \<^verbatim>\<open>qty\<close>, \<^verbatim>\<open>line_total\<close>.
  An ad-hoc item has no product id.
\<close>

record 'm item =
  product_id :: "nat option"
  barcode :: string
  name :: string
  unit_price :: 'm
  qty :: int
  line_total :: 'm

text \<open>\<^verbatim>\<open>if pid:\<close> on an id that may be None: None and 0 are false.\<close>

definition truthy :: "nat option \<Rightarrow> bool" where
  "truthy pid = (case pid of None \<Rightarrow> False | Some i \<Rightarrow> i \<noteq> 0)"

text \<open>\<^verbatim>\<open>sum(xs)\<close>: the additions from 0, left to right.\<close>

definition py_sum :: "'m::{zero,plus} list \<Rightarrow> 'm" where
  "py_sum xs = foldl (+) 0 xs"

text \<open>\<^verbatim>\<open>max(a, b)\<close>: the second argument only when it is greater.\<close>

definition py_max :: "'m::ord \<Rightarrow> 'm \<Rightarrow> 'm" where
  "py_max a b = (if a < b then b else a)"

definition item_row_of :: "nat \<Rightarrow> 'm item \<Rightarrow> 'm item_row" where
  "item_row_of hid it =
     \<lparr>header_id = hid, r_product_id = product_id it, r_barcode = barcode it,
      r_description = name it, r_qty = qty it, r_unit_price = unit_price it,
      r_line_total = line_total it\<rparr>"

text \<open>The quantity of product \<open>pid\<close> on a list of line items.\<close>

definition qty_of :: "nat \<Rightarrow> 'm item list \<Rightarrow> int" where
  "qty_of pid its = sum_list (map qty (filter (\<lambda>it. product_id it = Some pid) its))"

section \<open>Completing a sale (ui/pos_window.py)\<close>

text \<open>
  The writing statements of one operation, by which the caller says where the storage
  fails: the header insert, the update that sets the invoice number, and for the line
  item at position \<open>k\<close> (from 0) its insert and its stock update.
\<close>

datatype step = Header_insert | Invoice_update | Item_insert nat | Stock_update nat

datatype sale_outcome =
  Cart_empty | Not_confirmed | Sale_error sql_error | Sale_completed nat string

text \<open>The loop over the cart: each insert and each stock update is tried on its own,
  and an exception of either is dropped.\<close>

fun sale_items_loop ::
  "(step \<Rightarrow> bool) \<Rightarrow> nat \<Rightarrow> nat \<Rightarrow> 'm item list \<Rightarrow> 'm conn \<Rightarrow> 'm conn" where
  "sale_items_loop faults sale_id k [] c = c"
| "sale_items_loop faults sale_id k (it # its) c =
     (let c1 = (case add_sale_item (faults (Item_insert k)) c sale_id (product_id it)
                       (barcode it) (name it) (qty it) (unit_price it) (line_total it) of
                  Inl e \<Rightarrow> c | Inr c' \<Rightarrow> c');
          c2 = (if truthy (product_id it)
                then (case decrement_stock (faults (Stock_update k)) c1 (product_id it) (qty it) of
                        Inl e \<Rightarrow> c1 | Inr c' \<Rightarrow> c')
                else c1)
      in sale_items_loop faults sale_id (Suc k) its c2)"

text \<open>
  The invoice number of the sale just inserted: the one its row has, if any, else
  \<^verbatim>\<open>JSM-YYYYMMDD-\<close> and the id on six digits, which is then written to the row; a failure
  of that update is dropped and the number used all the same.
\<close>

definition stored_invoice :: "'m conn \<Rightarrow> nat \<Rightarrow> string option" where
  "stored_invoice c sale_id =
     (case fetch_by_id (sales (working c)) sale_id of
        None \<Rightarrow> None
      | Some r \<Rightarrow> (case invoice_no r of
                    None \<Rightarrow> None
                  | Some s \<Rightarrow> if s = [] then None else Some s))"

definition settle_invoice ::
  "bool \<Rightarrow> datetime \<Rightarrow> nat \<Rightarrow> 'm conn \<Rightarrow> string \<times> 'm conn" where
  "settle_invoice fails utcnow sale_id c =
     (case stored_invoice c sale_id of
        Some s \<Rightarrow> (s, c)
      | None \<Rightarrow>
          (let ino = ''JSM-'' @ strftime_Ymd utcnow @ ''-'' @ fmt_0d 6 sale_id
           in (ino, case exec_update_invoice fails ino sale_id c of
                      Inl e \<Rightarrow> c | Inr c' \<Rightarrow> commit c')))"

text \<open>
  \<^verbatim>\<open>POSWindow.complete_sale\<close>, as far as the database goes. \<open>confirm\<close> is the cashier's
  answer to "Paid amount is less than tot. Continue anyway?", \<open>t_header\<close> and
  \<open>t_invoice\<close> are the two readings of the UTC clock, \<open>cashier\<close> is the window's
  cashier id and \<open>paid\<close> the amount in the paid field. The receipt file and the
  dialogs that follow do not touch the database.
\<close>

definition complete_sale ::
  "(step \<Rightarrow> bool) \<Rightarrow> bool \<Rightarrow> datetime \<Rightarrow> datetime \<Rightarrow> nat \<Rightarrow> 'm::{zero,plus,minus,ord}
     \<Rightarrow> 'm item list \<Rightarrow> 'm conn \<Rightarrow> sale_outcome \<times> 'm conn" where
  "complete_sale faults confirm t_header t_invoice cashier paid cart c =
     (if cart = [] then (Cart_empty, c)
      else
        (let subtotal = py_sum (map line_total cart) in
         if paid < subtotal \<and> \<not> confirm then (Not_confirmed, c)
         else
           (let change = py_max 0 (paid - subtotal) in
            case DB_create_sale (faults Header_insert) t_header c None subtotal ''CASH''
                   paid change (Some cashier) of
              Inl e \<Rightarrow> (Sale_error e, c)
            | Inr (c1, sale_id) \<Rightarrow>
                (case settle_invoice (faults Invoice_update) t_invoice sale_id c1 of
                   (ino, c2) \<Rightarrow>
                     (Sale_completed sale_id ino, sale_items_loop faults sale_id 0 cart c2)))))"

section \<open>Saving a purchase (ui/purchase_entry.py)\<close>

datatype purchase_outcome = No_items | Purchase_error sql_error | Purchase_saved string

text \<open>
  The loop over the lines of the purchase, on the dialog's cursor: an insert that raises
  ends the loop with its error; the stock update goes through \<^verbatim>\<open>DB.increment_stock\<close>,
  which commits, and its exception is dropped.
\<close>

fun save_purchase_loop ::
  "(step \<Rightarrow> bool) \<Rightarrow> nat \<Rightarrow> nat \<Rightarrow> 'm item list \<Rightarrow> 'm conn \<Rightarrow> sql_error option \<times> 'm conn" where
  "save_purchase_loop faults purchase_id k [] c = (None, c)"
| "save_purchase_loop faults purchase_id k (it # its) c =
     (case exec_insert_purchase_item (faults (Item_insert k)) (item_row_of purchase_id it) c of
        Inl e \<Rightarrow> (Some e, c)
      | Inr (c1, i) \<Rightarrow>
          (let c2 = (if truthy (product_id it)
                     then (case increment_stock (faults (Stock_update k)) c1 (product_id it)
                                  (qty it) (Some (unit_price it)) of
                             Inl e \<Rightarrow> c1 | Inr c' \<Rightarrow> c')
                     else c1)
           in save_purchase_loop faults purchase_id (Suc k) its c2))"

text \<open>\<^verbatim>\<open>SELECT COUNT(*) FROM purchases WHERE date_time LIKE 'YYYY-MM-DD%'\<close>: the rows whose
  date_time begins with that date.\<close>

definition count_purchases_on :: "string \<Rightarrow> 'm conn \<Rightarrow> nat" where
  "count_purchases_on d c =
     length (filter (\<lambda>x. take (length d) (pu_date_time (snd x)) = d)
               (rows (purchases (working c))))"

text \<open>
  \<^verbatim>\<open>PurchaseEntryDialog.save_purchase\<close>. \<open>items\<close> are the rows of the dialog's table as
  the method reads them, \<open>t_local\<close> the reading of the local clock, \<open>t_count\<close> and
  \<open>t_insert\<close> the two readings of the UTC clock.
\<close>

definition save_purchase ::
  "(step \<Rightarrow> bool) \<Rightarrow> datetime \<Rightarrow> datetime \<Rightarrow> datetime \<Rightarrow> nat option \<Rightarrow> string
     \<Rightarrow> 'm::{zero,plus} item list \<Rightarrow> 'm conn \<Rightarrow> purchase_outcome \<times> 'm conn" where
  "save_purchase faults t_local t_count t_insert sup_id sup_name items c =
     (if items = [] then (No_items, c)
      else
        (let sq = count_purchases_on (strftime_Y_m_d t_count) c + 1;
             pno = ''PCH-'' @ strftime_Ymd t_local @ ''-'' @ fmt_0d 4 sq;
             tot = py_sum (map line_total items)
         in case exec_insert_purchase (faults Header_insert)
                   \<lparr>purchase_no = pno, pu_date_time = isoformat t_insert, supplier_id = sup_id,
                    supplier_name = sup_name, pu_total_amount = tot\<rparr> c of
              Inl e \<Rightarrow> (Purchase_error e, rollback c)
            | Inr (c1, purchase_id) \<Rightarrow>
                (case save_purchase_loop faults purchase_id 0 items c1 of
                   (Some e, c2) \<Rightarrow> (Purchase_error e, rollback c2)
                 | (None, c2) \<Rightarrow> (Purchase_saved pno, commit c2))))"

section \<open>The helpers of database/models.py\<close>

text \<open>
  \<^verbatim>\<open>create_sale\<close> and \<^verbatim>\<open>create_purchase\<close> run every statement on one cursor and commit
  once at the end; an exception leaves the function before the commit, with the
  statements run so far still in the open transaction. \<open>t_item k\<close> is the reading of
  the UTC clock at line \<open>k\<close>.
\<close>

fun create_sale_loop ::
  "(step \<Rightarrow> bool) \<Rightarrow> (nat \<Rightarrow> datetime) \<Rightarrow> nat \<Rightarrow> nat \<Rightarrow> 'm item list \<Rightarrow> 'm conn
     \<Rightarrow> sql_error option \<times> 'm conn" where
  "create_sale_loop faults t_item sale_id k [] c = (None, c)"
| "create_sale_loop faults t_item sale_id k (it # its) c =
     (case exec_insert_sale_item (faults (Item_insert k)) (item_row_of sale_id it) c of
        Inl e \<Rightarrow> (Some e, c)
      | Inr (c1, i) \<Rightarrow>
          (case exec_update_product (faults (Stock_update k))
                  (\<lambda>p. p\<lparr>stock_qty := stock_qty p - qty it,
                          p_updated_at := isoformat (t_item k)\<rparr>) (product_id it) c1 of
             Inl e \<Rightarrow> (Some e, c1)
           | Inr c2 \<Rightarrow> create_sale_loop faults t_item sale_id (Suc k) its c2))"

definition create_sale ::
  "(step \<Rightarrow> bool) \<Rightarrow> datetime \<Rightarrow> (nat \<Rightarrow> datetime) \<Rightarrow> 'm conn \<Rightarrow> 'm::{zero,plus} item list
     \<Rightarrow> string \<Rightarrow> 'm \<Rightarrow> 'm \<Rightarrow> nat option \<Rightarrow> (sql_error + string) \<times> 'm conn" where
  "create_sale faults now t_item c items pm paid change cashier =
     (let next_id = max_id (sales (working c)) + 1;
          ino = ''INV-'' @ fmt_0d 6 next_id;
          tot = py_sum (map line_total items)
      in case exec_insert_sale (faults Header_insert)
                \<lparr>invoice_no = Some ino, s_date_time = strftime_Y_m_d_HMS now,
                 s_total_amount = tot, payment_method = pm, paid_amount = paid,
                 change_amount = change, cashier_id = cashier\<rparr> c of
           Inl e \<Rightarrow> (Inl e, c)
         | Inr (c1, sale_id) \<Rightarrow>
             (case create_sale_loop faults t_item sale_id 0 items c1 of
                (Some e, c2) \<Rightarrow> (Inl e, c2)
              | (None, c2) \<Rightarrow> (Inr ino, commit c2)))"

fun create_purchase_loop ::
  "(step \<Rightarrow> bool) \<Rightarrow> (nat \<Rightarrow> datetime) \<Rightarrow> nat \<Rightarrow> nat \<Rightarrow> 'm item list \<Rightarrow> 'm conn
     \<Rightarrow> sql_error option \<times> 'm conn" where
  "create_purchase_loop faults t_item purchase_id k [] c = (None, c)"
| "create_purchase_loop faults t_item purchase_id k (it # its) c =
     (case exec_insert_purchase_item (faults (Item_insert k)) (item_row_of purchase_id it) c of
        Inl e \<Rightarrow> (Some e, c)
      | Inr (c1, i) \<Rightarrow>
          (case exec_update_product (faults (Stock_update k))
                  (\<lambda>p. p\<lparr>stock_qty := stock_qty p + qty it,
                          p_updated_at := isoformat (t_item k)\<rparr>) (product_id it) c1 of
             Inl e \<Rightarrow> (Some e, c1)
           | Inr c2 \<Rightarrow> create_purchase_loop faults t_item purchase_id (Suc k) its c2))"

definition create_purchase ::
  "(step \<Rightarrow> bool) \<Rightarrow> datetime \<Rightarrow> (nat \<Rightarrow> datetime) \<Rightarrow> 'm conn \<Rightarrow> nat option \<Rightarrow> string
     \<Rightarrow> 'm::{zero,plus} item list \<Rightarrow> (sql_error + string) \<times> 'm conn" where
  "create_purchase faults now t_item c sup_id sup_name items =
     (let next_id = max_id (purchases (working c)) + 1;
          pno = ''PUR-'' @ fmt_0d 6 next_id;
          tot = py_sum (map line_total items)
      in case exec_insert_purchase (faults Header_insert)
                \<lparr>purchase_no = pno, pu_date_time = strftime_Y_m_d_HMS now, supplier_id = sup_id,
                 supplier_name = sup_name, pu_total_amount = tot\<rparr> c of
           Inl e \<Rightarrow> (Inl e, c)
         | Inr (c1, purchase_id) \<Rightarrow>
             (case create_purchase_loop faults t_item purchase_id 0 items c1 of
                (Some e, c2) \<Rightarrow> (Inl e, c2)
              | (None, c2) \<Rightarrow> (Inr pno, commit c2)))"

text \<open>A session: calls of \<^verbatim>\<open>create_sale\<close> one after the other on the same connection,
  each with its own arguments; the result lists, for every call that returned, the
  sequence number it took and the invoice number it returned.\<close>

record 'm sale_call =
  call_faults :: "step \<Rightarrow> bool"
  call_now :: datetime
  call_t_item :: "nat \<Rightarrow> datetime"
  call_items :: "'m item list"
  call_method :: string
  call_paid :: 'm
  call_change :: 'm
  call_cashier :: "nat option"

fun sale_session :: "'m::{zero,plus} conn \<Rightarrow> 'm sale_call list \<Rightarrow> (nat \<times> string) list" where
  "sale_session c [] = []"
| "sale_session c (a # as) =
     (case create_sale (call_faults a) (call_now a) (call_t_item a) c (call_items a)
             (call_method a) (call_paid a) (call_change a) (call_cashier a) of
        (Inl e, c') \<Rightarrow> sale_session c' as
      | (Inr ino, c') \<Rightarrow> (max_id (sales (working c)) + 1, ino) # sale_session c' as)"

section \<open>The cart of the POS window\<close>

text \<open>
  The position of the first element of a list that satisfies \<open>P\<close>: what a
  \<^verbatim>\<open>for\<close> loop that breaks at the first match finds.
\<close>

definition first_index :: "('a \<Rightarrow> bool) \<Rightarrow> 'a list \<Rightarrow> nat option" where
  "first_index P xs =
     (if list_ex P xs then Some (length (takeWhile (\<lambda>x. \<not> P x) xs)) else None)"

text \<open>
  \<^verbatim>\<open>POSWindow._add_product_row\<close> on the fields it has read from the product row
  (id, barcode and name stripped, sale price). \<open>recent_duplicate\<close> is the answer of
  \<^verbatim>\<open>_is_recent_duplicate\<close>, which depends on the wall clock, and \<open>lower\<close> is
  \<^verbatim>\<open>str.lower\<close>. A matching line gets one unit more, otherwise a new line of quantity 1
  is appended. The quantity, an integer, is converted to the type of the price before
  the multiplication.
\<close>

definition add_product_row ::
  "(string \<Rightarrow> string) \<Rightarrow> bool \<Rightarrow> nat option \<Rightarrow> string \<Rightarrow> string \<Rightarrow> 'm::ring_1
     \<Rightarrow> 'm item list \<Rightarrow> 'm item list" where
  "add_product_row lower recent_duplicate prod_id bc nm price cart =
     (if recent_duplicate then cart
      else
        (let m1 = (case prod_id of
                     None \<Rightarrow> None
                   | Some i \<Rightarrow> first_index (\<lambda>it. product_id it = Some i) cart);
             m2 = (if m1 = None \<and> bc \<noteq> []
                   then first_index (\<lambda>it. barcode it \<noteq> [] \<and> barcode it = bc) cart else m1);
             m3 = (if m2 = None \<and> nm \<noteq> []
                   then first_index (\<lambda>it. name it \<noteq> [] \<and> lower (name it) = lower nm) cart
                   else m2)
         in case m3 of
              Some i \<Rightarrow>
                cart[i := (cart ! i)\<lparr>qty := qty (cart ! i) + 1,
                       line_total := of_int (qty (cart ! i) + 1) * unit_price (cart ! i)\<rparr>]
            | None \<Rightarrow>
                cart @ [\<lparr>product_id = prod_id, barcode = bc, name = nm, unit_price = price,
                         qty = 1, line_total = price * 1\<rparr>]))"

text \<open>
  \<^verbatim>\<open>POSWindow.on_table_double_click\<close>: a double click on the quantity column (column 3)
  of line \<open>row\<close>; \<open>answer\<close> is the quantity the dialog returns, None when it is
  cancelled.
\<close>

definition on_table_double_click ::
  "nat \<Rightarrow> nat \<Rightarrow> int option \<Rightarrow> 'm::ring_1 item list \<Rightarrow> 'm item list" where
  "on_table_double_click row col answer cart =
     (if col \<noteq> 3 then cart
      else (case answer of
              None \<Rightarrow> cart
            | Some new_q \<Rightarrow>
                if row < length cart
                then cart[row := (cart ! row)\<lparr>qty := new_q,
                            line_total := of_int new_q * unit_price (cart ! row)\<rparr>]
                else cart))"

section \<open>The receipt text (reports/pdf\_generator.py)\<close>

text \<open>\<^verbatim>\<open>"\n".join(lines)\<close>.\<close>

fun join_lines :: "string list \<Rightarrow> string" where
  "join_lines [] = []"
| "join_lines [l] = l"
| "join_lines (l # m # ls) = l @ [CHR 0x0A] @ join_lines (m # ls)"

text \<open>One line of the item table. \<open>f2\<close> is the rendering \<^verbatim>\<open>.2f\<close> of an amount.\<close>

definition receipt_line :: "('m \<Rightarrow> string) \<Rightarrow> nat \<times> 'm item \<Rightarrow> string" where
  "receipt_line f2 x =
     (let it = snd x;
          nm = (if length (name it) \<le> 24 then name it else take 21 (name it) @ ''...'')
      in ljust 3 CHR '' '' (digits (fst x)) @ '' '' @ ljust 24 CHR '' '' nm @ '' ''
         @ rjust 3 CHR '' '' (str_int (qty it)) @ '' ''
         @ rjust 8 CHR '' '' (f2 (unit_price it)) @ '' ''
         @ rjust 8 CHR '' '' (f2 (line_total it)))"

text \<open>
  \<^verbatim>\<open>format_receipt_text\<close>. Its third line is the local time of the call, which the
  function reads from the clock: the reading is the argument \<open>now\<close>.
\<close>

definition format_receipt_text ::
  "datetime \<Rightarrow> ('m \<Rightarrow> string) \<Rightarrow> string \<Rightarrow> string \<Rightarrow> 'm item list \<Rightarrow> 'm \<Rightarrow> 'm \<Rightarrow> 'm \<Rightarrow> string
     \<Rightarrow> string" where
  "format_receipt_text now f2 store_name ino cart_items subtotal paid change footer =
     join_lines
       ([store_name,
         ''Invoice No: '' @ ino,
         ''Date: '' @ strftime_Y_m_d_HMS now,
         replicate 48 CHR ''-'',
         ljust 3 CHR '' '' ''No'' @ '' '' @ ljust 24 CHR '' '' ''Item'' @ '' ''
           @ rjust 3 CHR '' '' ''Qty'' @ '' '' @ rjust 8 CHR '' '' ''Price'' @ '' ''
           @ rjust 8 CHR '' '' ''Total'',
         replicate 48 CHR ''-'']
        @ map (receipt_line f2) (zip [1 ..< Suc (length cart_items)] cart_items)
        @ [replicate 48 CHR ''-'',
           rjust 36 CHR '' '' ''Subtotal:'' @ '' '' @ rjust 8 CHR '' '' (f2 subtotal),
           rjust 36 CHR '' '' ''Paid:'' @ '' '' @ rjust 8 CHR '' '' (f2 paid),
           rjust 36 CHR '' '' ''Change:'' @ '' '' @ rjust 8 CHR '' '' (f2 change),
           [],
           footer])"

section \<open>Example data\<close>

definition no_tables :: "real tables" where
  "no_tables = \<lparr>products = Map.empty,
     sales = \<lparr>rows = [], autoinc = 0\<rparr>,
     sale_items = \<lparr>rows = [], autoinc = 0\<rparr>,
     purchases = \<lparr>rows = [], autoinc = 0\<rparr>,
     purchase_items = \<lparr>rows = [], autoinc = 0\<rparr>,
     settings = Map.empty\<rparr>"

definition tea :: "real product" where
  "tea = \<lparr>p_barcode = Some ''8961'', p_name = ''Tea'', p_category = None,
     purchase_price = 80, sale_price = 100, stock_qty = 10, tax_percent = 0,
     reorder_level = 0, p_created_at = ''2024-01-01T09:00:00'',
     p_updated_at = ''2024-01-01T09:00:00''\<rparr>"

definition shop_tables :: "real tables" where
  "shop_tables = no_tables\<lparr>products := [1 \<mapsto> tea],
     settings := [''store_name'' \<mapsto> ''JADOON SHOPPING MART'']\<rparr>"

definition shop :: "real conn" where
  "shop = \<lparr>committed = shop_tables, working = shop_tables\<rparr>"

definition no_faults :: "step \<Rightarrow> bool" where
  "no_faults s = False"

definition noon :: datetime where
  "noon = \<lparr>year = 2024, month = 1, day = 2, hour = 12, minute = 0, second = 0,
     microsecond = 0\<rparr>"

text \<open>Two units of the product Tea, at 100.00 each.\<close>

definition two_teas :: "real item list" where
  "two_teas = [\<lparr>product_id = Some 1, barcode = ''8961'', name = ''Tea'', unit_price = 100,
     qty = 2, line_total = 200\<rparr>]"

text \<open>An ad-hoc item, added by hand.\<close>

definition bag :: "real item" where
  "bag = \<lparr>product_id = None, barcode = [], name = ''Bag'', unit_price = 5, qty = 3,
     line_total = 15\<rparr>"

section \<open>Auxiliary facts\<close>

subsection \<open>Tables\<close>

lemma foldr_max_ge: "x \<in> set xs \<Longrightarrow> (x::nat) \<le> foldr max xs 0"
  by (induction xs) auto

lemma foldr_max_init: "foldr max xs (k::nat) = max (foldr max xs 0) k"
  by (induction xs) auto

lemma max_id_ge: "x \<in> set (rows t) \<Longrightarrow> fst x \<le> max_id t"
  unfolding max_id_def by (rule foldr_max_ge) simp

lemma max_id_append: "max_id (t\<lparr>rows := rows t @ [(i, r)]\<rparr>) = max (max_id t) i"
  by (simp add: max_id_def foldr_max_init [of _ i])

lemma insert_row_rows:
  assumes "insert_row r t = (t', i)"
  shows "rows t' = rows t @ [(i, r)]" and "max_id t < i" and "max_id t' = i"
proof -
  from assms have i: "i = max (autoinc t) (max_id t) + 1"
    and t': "t' = t\<lparr>rows := rows t @ [(i, r)], autoinc := i\<rparr>"
    by (auto simp: insert_row_def Let_def)
  show "rows t' = rows t @ [(i, r)]" using t' by simp
  show lt: "max_id t < i" using i by simp
  have "max_id t' = max_id (t\<lparr>rows := rows t @ [(i, r)]\<rparr>)"
    using t' by (simp add: max_id_def)
  then show "max_id t' = i" using lt by (simp add: max_id_append)
qed

lemma fresh_id_map:
  "max_id t < i \<Longrightarrow> map (\<lambda>x. if fst x = i then f x else x) (rows t) = rows t"
  by (rule map_idI) (auto dest: max_id_ge)

lemma fresh_id_map_of: "max_id t < i \<Longrightarrow> map_of (rows t) i = None"
  by (auto simp: map_of_eq_None_iff dest: max_id_ge)

subsection \<open>Statements and methods\<close>

lemma add_sale_item_Inr:
  assumes "add_sale_item f c sid pid bc d q p t = Inr c'"
  shows "products (working c') = products (working c)"
    and "sales (working c') = sales (working c)"
    and "clean c'"
    and "map snd (rows (sale_items (working c'))) =
           map snd (rows (sale_items (working c))) @
           [\<lparr>header_id = sid, r_product_id = pid, r_barcode = bc, r_description = d,
             r_qty = q, r_unit_price = p, r_line_total = t\<rparr>]"
    and "\<not> f"
  using assms
  by (auto simp: add_sale_item_def exec_insert_sale_item_def commit_def insert_row_def Let_def
      clean_def split: if_splits sum.splits prod.splits)

lemma add_sale_item_ok: "\<not> f \<Longrightarrow> \<exists>c'. add_sale_item f c sid pid bc d q p t = Inr c'"
  by (simp add: add_sale_item_def exec_insert_sale_item_def split: prod.splits)

lemma decrement_stock_Inr:
  assumes "decrement_stock f c pid q = Inr c'" and "pid \<noteq> None"
  shows "products (working c') =
           update_where_id (\<lambda>p. p\<lparr>stock_qty := stock_qty p - q\<rparr>) pid (products (working c))"
    and "sales (working c') = sales (working c)"
    and "sale_items (working c') = sale_items (working c)"
    and "clean c'"
  using assms
  by (auto simp: decrement_stock_def exec_update_product_def commit_def clean_def
      split: if_splits sum.splits)

lemma decrement_stock_ok:
  "\<not> f \<Longrightarrow> \<exists>c'. decrement_stock f c pid q = Inr c'"
  by (simp add: decrement_stock_def exec_update_product_def)

lemma update_where_id_at:
  "update_where_id f pid m i =
     (if pid = Some i then map_option f (m i) else m i)"
  by (auto simp: update_where_id_def split: option.splits)

lemma qty_of_Cons:
  "qty_of pid (it # its) = (if product_id it = Some pid then qty it else 0) + qty_of pid its"
  by (simp add: qty_of_def)

lemma truthy_Some: "truthy (Some i) = (i \<noteq> 0)"
  by (simp add: truthy_def)

lemma truthy_not_None: "truthy p \<Longrightarrow> p \<noteq> None"
  by (cases p) (simp_all add: truthy_def)

lemma not_truthy_other: "\<not> truthy p \<Longrightarrow> pid \<noteq> 0 \<Longrightarrow> p \<noteq> Some pid"
  by (cases p) (simp_all add: truthy_def)

lemma add_sale_item_fail: "f \<Longrightarrow> add_sale_item f c sid pid bc d q p t = Inl OperationalError"
  by (simp add: add_sale_item_def exec_insert_sale_item_def)

lemma decrement_stock_fail:
  "f \<Longrightarrow> pid \<noteq> None \<Longrightarrow> decrement_stock f c pid q = Inl OperationalError"
  by (simp add: decrement_stock_def exec_update_product_def)

lemma sale_item_step:
  "\<exists>c2. sale_items_loop faults sid k (it # its) c = sale_items_loop faults sid (Suc k) its c2
     \<and> sales (working c2) = sales (working c)
     \<and> (clean c \<longrightarrow> clean c2)
     \<and> products (working c2) =
         (if truthy (product_id it) \<and> \<not> faults (Stock_update k)
          then update_where_id (\<lambda>p. p\<lparr>stock_qty := stock_qty p - qty it\<rparr>) (product_id it)
                 (products (working c))
          else products (working c))
     \<and> map snd (rows (sale_items (working c2))) =
         map snd (rows (sale_items (working c)))
         @ (if faults (Item_insert k) then [] else [item_row_of sid it])"
proof -
  define c1 where "c1 = (case add_sale_item (faults (Item_insert k)) c sid (product_id it)
                       (barcode it) (name it) (qty it) (unit_price it) (line_total it) of
                  Inl e \<Rightarrow> c | Inr c' \<Rightarrow> c')"
  define c2 where "c2 = (if truthy (product_id it)
                then (case decrement_stock (faults (Stock_update k)) c1 (product_id it) (qty it) of
                        Inl e \<Rightarrow> c1 | Inr c' \<Rightarrow> c')
                else c1)"
  have loop: "sale_items_loop faults sid k (it # its) c = sale_items_loop faults sid (Suc k) its c2"
    unfolding c2_def c1_def by (simp add: Let_def)
  have c1: "sales (working c1) = sales (working c) \<and>
    products (working c1) = products (working c) \<and>
    (clean c \<longrightarrow> clean c1) \<and>
    map snd (rows (sale_items (working c1))) =
    map snd (rows (sale_items (working c))) @
    (if faults (Item_insert k) then [] else [item_row_of sid it])"
  proof (cases "faults (Item_insert k)")
    case True
    then have e: "c1 = c" by (simp add: c1_def add_sale_item_fail)
    show ?thesis unfolding e using True by simp
  next
    case False
    from add_sale_item_ok [OF False]
    obtain c' where a: "add_sale_item (faults (Item_insert k)) c sid (product_id it)
                       (barcode it) (name it) (qty it) (unit_price it) (line_total it) = Inr c'" ..
    then have e: "c1 = c'" by (simp add: c1_def)
    show ?thesis unfolding e
      using False add_sale_item_Inr [OF a] by (simp add: item_row_of_def)
  qed
  have c2: "sales (working c2) = sales (working c1) \<and>
    sale_items (working c2) = sale_items (working c1) \<and>
    (clean c1 \<longrightarrow> clean c2) \<and>
    products (working c2) =
         (if truthy (product_id it) \<and> \<not> faults (Stock_update k)
          then update_where_id (\<lambda>p. p\<lparr>stock_qty := stock_qty p - qty it\<rparr>) (product_id it)
                 (products (working c1))
          else products (working c1))"
  proof (cases "truthy (product_id it) \<and> \<not> faults (Stock_update k)")
    case True
    then have nn: "product_id it \<noteq> None" by (simp add: truthy_not_None)
    from True have nf: "\<not> faults (Stock_update k)" by simp
    from decrement_stock_ok [OF nf] obtain c' where
      d: "decrement_stock (faults (Stock_update k)) c1 (product_id it) (qty it) = Inr c'" ..
    then have e: "c2 = c'" using True by (simp add: c2_def)
    show ?thesis unfolding e using decrement_stock_Inr [OF d nn] True by simp
  next
    case False
    have e: "c2 = c1"
    proof (cases "truthy (product_id it)")
      case True
      then have "faults (Stock_update k)" "product_id it \<noteq> None"
        using False by (simp_all add: truthy_not_None)
      then show ?thesis using True by (simp add: c2_def decrement_stock_fail)
    next
      case False
      then show ?thesis by (simp add: c2_def)
    qed
    show ?thesis unfolding e using False by auto
  qed
  have s: "sales (working c2) = sales (working c)"
    using c1 c2 by simp
  have cl: "clean c \<longrightarrow> clean c2"
    using c1 c2 by simp
  have pr: "products (working c2) =
         (if truthy (product_id it) \<and> \<not> faults (Stock_update k)
          then update_where_id (\<lambda>p. p\<lparr>stock_qty := stock_qty p - qty it\<rparr>) (product_id it)
                 (products (working c))
          else products (working c))"
    using c1 c2 by simp
  have it: "map snd (rows (sale_items (working c2))) =
         map snd (rows (sale_items (working c)))
         @ (if faults (Item_insert k) then [] else [item_row_of sid it])"
    using c1 c2 by simp
  show ?thesis by (rule exI [of _ c2]) (rule conjI loop s cl pr it)+
qed

lemma sale_items_loop_stock:
  assumes "\<forall>k. \<not> faults (Stock_update k)" and "pid \<noteq> 0"
  shows "products (working (sale_items_loop faults sid k cart c)) pid =
           map_option (\<lambda>p. p\<lparr>stock_qty := stock_qty p - qty_of pid cart\<rparr>)
             (products (working c) pid)"
  using assms
proof (induction cart arbitrary: k c)
  case Nil
  then show ?case by (simp add: qty_of_def option.map_ident)
next
  case (Cons it its)
  define c1 where "c1 = (case add_sale_item (faults (Item_insert k)) c sid (product_id it)
                       (barcode it) (name it) (qty it) (unit_price it) (line_total it) of
                  Inl e \<Rightarrow> c | Inr c' \<Rightarrow> c')"
  define c2 where "c2 = (if truthy (product_id it)
                then (case decrement_stock (faults (Stock_update k)) c1 (product_id it) (qty it) of
                        Inl e \<Rightarrow> c1 | Inr c' \<Rightarrow> c')
                else c1)"
  have p1: "products (working c1) = products (working c)"
    unfolding c1_def by (auto split: sum.splits dest: add_sale_item_Inr(1))
  have p2: "products (working c2) pid =
      (if product_id it = Some pid
       then map_option (\<lambda>p. p\<lparr>stock_qty := stock_qty p - qty it\<rparr>) (products (working c) pid)
       else products (working c) pid)"
  proof (cases "truthy (product_id it)")
    case True
    then have nn: "product_id it \<noteq> None" by (rule truthy_not_None)
    from Cons.prems(1) have nf: "\<not> faults (Stock_update k)" by simp
    from decrement_stock_ok [OF nf] obtain c' where
      d: "decrement_stock (faults (Stock_update k)) c1 (product_id it) (qty it) = Inr c'" ..
    then have e: "c2 = c'" using True by (simp add: c2_def)
    show ?thesis unfolding e using decrement_stock_Inr(1) [OF d nn] p1
      by (simp add: update_where_id_at)
  next
    case False
    then have "product_id it \<noteq> Some pid" using Cons.prems(2) by (rule not_truthy_other)
    then show ?thesis using False p1 by (simp add: c2_def)
  qed
  have "sale_items_loop faults sid k (it # its) c = sale_items_loop faults sid (Suc k) its c2"
    unfolding c2_def c1_def by (simp add: Let_def)
  then show ?case
    using Cons.IH [OF Cons.prems, of "Suc k" c2] p2
    by (cases "products (working c) pid") (auto simp: qty_of_Cons)
qed


lemma sale_items_loop_frame:
  "sales (working (sale_items_loop faults sid k cart c)) = sales (working c)
   \<and> (clean c \<longrightarrow> clean (sale_items_loop faults sid k cart c))"
proof (induction cart arbitrary: k c)
  case Nil
  show ?case by simp
next
  case (Cons it its)
  from sale_item_step [of faults sid k it its c] obtain c2 where
    l: "sale_items_loop faults sid k (it # its) c = sale_items_loop faults sid (Suc k) its c2"
    and s: "sales (working c2) = sales (working c)"
    and cl: "clean c \<longrightarrow> clean c2"
    by blast
  show ?case unfolding l using Cons.IH [of "Suc k" c2] s cl by simp
qed

lemma sale_items_loop_no_products:
  assumes "\<forall>it \<in> set cart. \<not> truthy (product_id it)"
  shows "products (working (sale_items_loop faults sid k cart c)) = products (working c)"
  using assms
proof (induction cart arbitrary: k c)
  case Nil
  show ?case by simp
next
  case (Cons it its)
  from sale_item_step [of faults sid k it its c] obtain c2 where
    l: "sale_items_loop faults sid k (it # its) c = sale_items_loop faults sid (Suc k) its c2"
    and p: "products (working c2) =
         (if truthy (product_id it) \<and> \<not> faults (Stock_update k)
          then update_where_id (\<lambda>p. p\<lparr>stock_qty := stock_qty p - qty it\<rparr>) (product_id it)
                 (products (working c))
          else products (working c))"
    by blast
  from Cons.prems have "\<not> truthy (product_id it)" and r: "\<forall>it \<in> set its. \<not> truthy (product_id it)"
    by simp_all
  with p have "products (working c2) = products (working c)" by simp
  then show ?case unfolding l using Cons.IH [OF r, of "Suc k" c2] by simp
qed

lemma sale_items_loop_products_cong:
  assumes "products (working c) = products (working d)"
  shows "products (working (sale_items_loop faults sid k cart c)) =
         products (working (sale_items_loop faults sid' k cart d))"
  using assms
proof (induction cart arbitrary: k c d)
  case Nil
  then show ?case by simp
next
  case (Cons it its)
  from sale_item_step [of faults sid k it its c] obtain c2 where
    l: "sale_items_loop faults sid k (it # its) c = sale_items_loop faults sid (Suc k) its c2"
    and p: "products (working c2) =
         (if truthy (product_id it) \<and> \<not> faults (Stock_update k)
          then update_where_id (\<lambda>p. p\<lparr>stock_qty := stock_qty p - qty it\<rparr>) (product_id it)
                 (products (working c))
          else products (working c))"
    by blast
  from sale_item_step [of faults sid' k it its d] obtain d2 where
    l': "sale_items_loop faults sid' k (it # its) d = sale_items_loop faults sid' (Suc k) its d2"
    and p': "products (working d2) =
         (if truthy (product_id it) \<and> \<not> faults (Stock_update k)
          then update_where_id (\<lambda>p. p\<lparr>stock_qty := stock_qty p - qty it\<rparr>) (product_id it)
                 (products (working d))
          else products (working d))"
    by blast
  from p p' Cons.prems have "products (working c2) = products (working d2)" by simp
  then show ?case unfolding l l' by (rule Cons.IH)
qed

lemma sale_items_loop_rows:
  assumes "\<forall>k. \<not> faults (Item_insert k)"
  shows "map snd (rows (sale_items (working (sale_items_loop faults sid k cart c)))) =
         map snd (rows (sale_items (working c))) @ map (item_row_of sid) cart"
  using assms
proof (induction cart arbitrary: k c)
  case Nil
  show ?case by simp
next
  case (Cons it its)
  from sale_item_step [of faults sid k it its c] obtain c2 where
    l: "sale_items_loop faults sid k (it # its) c = sale_items_loop faults sid (Suc k) its c2"
    and r: "map snd (rows (sale_items (working c2))) =
         map snd (rows (sale_items (working c)))
         @ (if faults (Item_insert k) then [] else [item_row_of sid it])"
    by blast
  from r Cons.prems have "map snd (rows (sale_items (working c2))) =
         map snd (rows (sale_items (working c))) @ [item_row_of sid it]" by simp
  then show ?case unfolding l using Cons.IH [OF Cons.prems, of "Suc k" c2] by simp
qed


lemma exec_insert_sale_Inr:
  assumes "exec_insert_sale f r c = Inr (c1, sid)"
  shows "rows (sales (working c1)) = rows (sales (working c)) @ [(sid, r)]"
    and "max_id (sales (working c)) < sid"
    and "max_id (sales (working c1)) = sid"
    and "products (working c1) = products (working c)"
    and "sale_items (working c1) = sale_items (working c)"
    and "purchases (working c1) = purchases (working c)"
    and "committed c1 = committed c"
    and "\<not> f"
proof -
  obtain t i where ir: "insert_row r (sales (working c)) = (t, i)"
    by (cases "insert_row r (sales (working c))")
  from assms ir have nf: "\<not> f" and c1: "c1 = c\<lparr>working := (working c)\<lparr>sales := t\<rparr>\<rparr>"
    and i: "sid = i"
    by (auto simp: exec_insert_sale_def split: if_splits)
  note f = insert_row_rows [OF ir]
  show "rows (sales (working c1)) = rows (sales (working c)) @ [(sid, r)]"
    unfolding c1 i using f(1) by simp
  show "max_id (sales (working c)) < sid" unfolding i by (rule f(2))
  show "max_id (sales (working c1)) = sid" unfolding c1 i using f(3) by simp
  show "products (working c1) = products (working c)" unfolding c1 by simp
  show "sale_items (working c1) = sale_items (working c)" unfolding c1 by simp
  show "purchases (working c1) = purchases (working c)" unfolding c1 by simp
  show "committed c1 = committed c" unfolding c1 by simp
  show "\<not> f" by (rule nf)
qed

lemma working_commit: "working (commit c) = working c"
  by (simp add: commit_def)

lemma clean_commit: "clean (commit c)"
  by (simp add: commit_def clean_def)

lemma DB_create_sale_Inr:
  assumes "DB_create_sale f now c ino tot pm paid ch cashier = Inr (c1, sid)"
  shows "rows (sales (working c1)) = rows (sales (working c)) @
           [(sid, \<lparr>invoice_no = ino, s_date_time = isoformat now, s_total_amount = tot,
              payment_method = pm, paid_amount = paid, change_amount = ch,
              cashier_id = cashier\<rparr>)]"
    and "max_id (sales (working c)) < sid"
    and "products (working c1) = products (working c)"
    and "sale_items (working c1) = sale_items (working c)"
    and "clean c1"
    and "\<not> f"
proof -
  from assms obtain c0 where
    e: "exec_insert_sale f \<lparr>invoice_no = ino, s_date_time = isoformat now, s_total_amount = tot,
              payment_method = pm, paid_amount = paid, change_amount = ch,
              cashier_id = cashier\<rparr> c = Inr (c0, sid)"
    and c1: "c1 = commit c0"
    by (auto simp: DB_create_sale_def split: sum.splits)
  note f = exec_insert_sale_Inr [OF e]
  show "rows (sales (working c1)) = rows (sales (working c)) @
           [(sid, \<lparr>invoice_no = ino, s_date_time = isoformat now, s_total_amount = tot,
              payment_method = pm, paid_amount = paid, change_amount = ch,
              cashier_id = cashier\<rparr>)]"
    unfolding c1 working_commit by (rule f(1))
  show "max_id (sales (working c)) < sid" by (rule f(2))
  show "products (working c1) = products (working c)" unfolding c1 working_commit by (rule f(4))
  show "sale_items (working c1) = sale_items (working c)" unfolding c1 working_commit by (rule f(5))
  show "clean c1" unfolding c1 by (rule clean_commit)
  show "\<not> f" by (rule f(8))
qed

lemma DB_create_sale_fail:
  "f \<Longrightarrow> DB_create_sale f now c ino tot pm paid ch cashier = Inl OperationalError"
  by (simp add: DB_create_sale_def exec_insert_sale_def)

lemma DB_create_sale_None_ok:
  assumes "\<not> f"
  shows "\<exists>c1 sid. DB_create_sale f now c None tot pm paid ch cashier = Inr (c1, sid)"
  using assms by (simp add: DB_create_sale_def exec_insert_sale_def split: prod.splits)

lemma exec_update_invoice_Inr:
  assumes "exec_update_invoice f ino sid c = Inr c'"
  shows "rows (sales (working c')) =
           map (\<lambda>x. if fst x = sid then (fst x, (snd x)\<lparr>invoice_no := Some ino\<rparr>) else x)
             (rows (sales (working c)))"
    and "products (working c') = products (working c)"
    and "sale_items (working c') = sale_items (working c)"
  using assms
  by (auto simp: exec_update_invoice_def Let_def split: if_splits)

lemma settle_invoice_fresh:
  assumes rs: "rows (sales (working c)) = old @ [(sid, hdr)]"
    and fresh: "\<forall>x \<in> set old. fst x \<noteq> sid"
    and none: "invoice_no hdr = None"
    and res: "settle_invoice f now sid c = (ino, c2)"
  shows "\<exists>hdr'. rows (sales (working c2)) = old @ [(sid, hdr')]
           \<and> hdr'\<lparr>invoice_no := None\<rparr> = hdr"
    and "products (working c2) = products (working c)"
    and "sale_items (working c2) = sale_items (working c)"
    and "clean c \<longrightarrow> clean c2"
    and "ino = ''JSM-'' @ strftime_Ymd now @ ''-'' @ fmt_0d 6 sid"
proof -
  from fresh have "map_of old sid = None"
    by (auto simp: map_of_eq_None_iff)
  then have "fetch_by_id (sales (working c)) sid = Some hdr"
    by (simp add: fetch_by_id_def rs map_add_def)
  then have st: "stored_invoice c sid = None"
    using none by (simp add: stored_invoice_def)
  define inv' where "inv' = ''JSM-'' @ strftime_Ymd now @ ''-'' @ fmt_0d 6 sid"
  from res st have ino: "ino = inv'"
    and c2: "c2 = (case exec_update_invoice f inv' sid c of Inl e \<Rightarrow> c | Inr c' \<Rightarrow> commit c')"
    by (auto simp: settle_invoice_def Let_def inv'_def)
  show "ino = ''JSM-'' @ strftime_Ymd now @ ''-'' @ fmt_0d 6 sid"
    using ino by (simp add: inv'_def)
  have old: "map (\<lambda>x. if fst x = sid then (fst x, (snd x)\<lparr>invoice_no := Some inv'\<rparr>) else x) old = old"
    by (rule map_idI) (use fresh in auto)
  show "\<exists>hdr'. rows (sales (working c2)) = old @ [(sid, hdr')]
           \<and> hdr'\<lparr>invoice_no := None\<rparr> = hdr"
  proof (cases "exec_update_invoice f inv' sid c")
    case (Inl e)
    then have "c2 = c" by (simp add: c2)
    then show ?thesis using rs none by simp
  next
    case (Inr c')
    then have e: "c2 = commit c'" by (simp add: c2)
    have "rows (sales (working c2)) = old @ [(sid, hdr\<lparr>invoice_no := Some inv'\<rparr>)]"
      unfolding e working_commit exec_update_invoice_Inr(1) [OF Inr] rs
      using old by simp
    then show ?thesis using none by simp
  qed
  show "products (working c2) = products (working c)"
    unfolding c2 by (cases "exec_update_invoice f inv' sid c")
      (simp_all add: working_commit exec_update_invoice_Inr)
  show "sale_items (working c2) = sale_items (working c)"
    unfolding c2 by (cases "exec_update_invoice f inv' sid c")
      (simp_all add: working_commit exec_update_invoice_Inr)
  show "clean c \<longrightarrow> clean c2"
    unfolding c2 by (cases "exec_update_invoice f inv' sid c")
      (simp_all add: clean_commit)
qed


lemma complete_sale_completed:
  assumes "complete_sale faults confirm t1 t2 cashier paid cart c = (Sale_completed sid ino, c')"
  shows "\<exists>c2 hdr. c' = sale_items_loop faults sid 0 cart c2
     \<and> rows (sales (working c2)) = rows (sales (working c)) @ [(sid, hdr)]
     \<and> s_total_amount hdr = py_sum (map line_total cart)
     \<and> paid_amount hdr = paid
     \<and> change_amount hdr = py_max 0 (paid - py_sum (map line_total cart))
     \<and> max_id (sales (working c)) < sid
     \<and> products (working c2) = products (working c)
     \<and> sale_items (working c2) = sale_items (working c)
     \<and> clean c2 \<and> cart \<noteq> [] \<and> \<not> faults Header_insert
     \<and> ino = ''JSM-'' @ strftime_Ymd t2 @ ''-'' @ fmt_0d 6 sid"
proof -
  define sub where "sub = py_sum (map line_total cart)"
  define hdr0 where "hdr0 = \<lparr>invoice_no = None, s_date_time = isoformat t1,
     s_total_amount = sub, payment_method = ''CASH'', paid_amount = paid,
     change_amount = py_max 0 (paid - sub), cashier_id = Some cashier\<rparr>"
  from assms have ne: "cart \<noteq> []"
    by (auto simp: complete_sale_def split: if_splits)
  from assms ne obtain c1 c2 where
    d: "DB_create_sale (faults Header_insert) t1 c None sub ''CASH'' paid
          (py_max 0 (paid - sub)) (Some cashier) = Inr (c1, sid)"
    and st: "settle_invoice (faults Invoice_update) t2 sid c1 = (ino, c2)"
    and c': "c' = sale_items_loop faults sid 0 cart c2"
    by (auto simp: complete_sale_def Let_def sub_def split: if_splits sum.splits prod.splits)
  note f = DB_create_sale_Inr [OF d]
  have rs: "rows (sales (working c1)) = rows (sales (working c)) @ [(sid, hdr0)]"
    using f(1) by (simp add: hdr0_def)
  have fresh: "\<forall>x \<in> set (rows (sales (working c))). fst x \<noteq> sid"
    using f(2) max_id_ge by fastforce
  have none: "invoice_no hdr0 = None" by (simp add: hdr0_def)
  note g = settle_invoice_fresh [OF rs fresh none st]
  from g(1) obtain hdr where h: "rows (sales (working c2)) = rows (sales (working c)) @ [(sid, hdr)]"
    and h0: "hdr\<lparr>invoice_no := None\<rparr> = hdr0" by blast
  from h0 have "s_total_amount (hdr\<lparr>invoice_no := None\<rparr>) = s_total_amount hdr0"
    and "paid_amount (hdr\<lparr>invoice_no := None\<rparr>) = paid_amount hdr0"
    and "change_amount (hdr\<lparr>invoice_no := None\<rparr>) = change_amount hdr0"
    by simp_all
  then have fields: "s_total_amount hdr = sub" "paid_amount hdr = paid"
    "change_amount hdr = py_max 0 (paid - sub)"
    by (simp_all add: hdr0_def)
  have p: "products (working c2) = products (working c)" using g(2) f(3) by simp
  have si: "sale_items (working c2) = sale_items (working c)" using g(3) f(4) by simp
  have cl: "clean c2" using g(4) f(5) by simp
  show ?thesis
    apply (rule exI [of _ c2])
    apply (rule exI [of _ hdr])
    using c' h fields f(2) p si cl ne f(6) g(5) unfolding sub_def
    apply (intro conjI)
    apply assumption+
    done
qed

lemma complete_sale_not_completed:
  assumes "\<forall>sid ino. fst (complete_sale faults confirm t1 t2 cashier paid cart c) \<noteq> Sale_completed sid ino"
  shows "snd (complete_sale faults confirm t1 t2 cashier paid cart c) = c"
  using assms
  by (auto simp: complete_sale_def Let_def split: if_splits sum.splits prod.splits)

lemma complete_sale_header_fault:
  assumes "faults Header_insert"
  shows "snd (complete_sale faults confirm t1 t2 cashier paid cart c) = c"
  using assms
  by (simp add: complete_sale_def Let_def DB_create_sale_fail)

section \<open>Settings round trip\<close>

text \<open>
  Claim C7. A setting written with \<^verbatim>\<open>set(key, value)\<close> and then read with
  \<^verbatim>\<open>get(key)\<close> comes back as the string form of the value, whatever default the read
  supplies; and a key that has no row reads as the supplied default.
\<close>

theorem settings_round_trip:
  "(\<exists>c'. AppSettings_set False str_of c key v = Inr c'
       \<and> AppSettings_get c' key d = PStr (py_str str_of v))
   \<and> (settings (working c) key = None \<longrightarrow> AppSettings_get c key d = d)"
  by (simp add: AppSettings_set_def AppSettings_get_def set_setting_def get_setting_def
      commit_def)

theorem settings_round_trip_witness:
  "settings (working shop) ''low_stock_threshold'' = None
   \<and> AppSettings_get shop ''low_stock_threshold'' (PObj (5::int)) = PObj 5
   \<and> (\<exists>c'. AppSettings_set False str_int shop ''low_stock_threshold'' (PObj 7) = Inr c'
       \<and> AppSettings_get c' ''low_stock_threshold'' (PObj (5::int)) = PStr ''7'')"
proof -
  have none: "settings (working shop) ''low_stock_threshold'' = None"
    by (simp add: shop_def shop_tables_def no_tables_def)
  have seven: "py_str str_int (PObj 7) = ''7''"
    by (simp add: str_int_def digits.simps digit_char_def)
  from settings_round_trip [where str_of = str_int and c = shop
      and key = "''low_stock_threshold''" and v = "PObj 7" and d = "PObj (5::int)"]
  show ?thesis using none seven by simp
qed

end
